theory Spec2Isabelle
  imports Complex_Main "HOL-Library.Word"
begin

section \<open>Data model of \<open>dab/netbios.py\<close>\<close>

text \<open>
  The module is Python 3 code (it builds \<open>bytes(text, 'ascii')\<close> and \<open>str(data, 'ascii')\<close>).
  A Python \<open>str\<close> is a sequence of Unicode code points, a \<open>bytes\<close> object a sequence of
  octets, a Python \<open>int\<close> is unbounded.  Every exception the module can raise is a value of
  \<open>error\<close>; a function that may raise returns \<open>error + 'a\<close> with \<open>Inl\<close> the exception.
\<close>

type_synonym byte = "8 word"
type_synonym pystr = "nat list"

datatype error =
    Exception
  | IndexError
  | ValueError
  | StructError
  | AttributeError
  | NameError
  | AssertionError
  | UnicodeEncodeError
  | UnicodeDecodeError
  | OSError nat

definition TYPE_SERVER :: byte where
  "TYPE_SERVER = 0x20"

definition HEADER_STRUCT_SIZE :: nat where
  "HEADER_STRUCT_SIZE = 12"

subsection \<open>Built-ins the module calls\<close>

text \<open>\<open>chr(i)\<close>: the one-character string of code point \<open>i\<close>; \<open>ValueError\<close> outside
  \<open>range(0x110000)\<close>.\<close>

definition py_chr :: "int \<Rightarrow> error + pystr" where
  "py_chr i = (if 0 \<le> i \<and> i < 0x110000 then Inr [nat i] else Inl ValueError)"

text \<open>\<open>s.ljust(n)\<close>: pad with spaces on the right up to \<open>n\<close> characters.\<close>

definition ljust :: "pystr \<Rightarrow> nat \<Rightarrow> pystr" where
  "ljust s n = s @ replicate (n - length s) 32"

text \<open>\<open>bytes(s, 'ascii')\<close>: one octet per code point; \<open>UnicodeEncodeError\<close> when a code
  point is above 127.\<close>

definition bytes_ascii :: "pystr \<Rightarrow> error + byte list" where
  "bytes_ascii s = (if list_all (\<lambda>c. c < 128) s then Inr (map of_nat s) else Inl UnicodeEncodeError)"

text \<open>\<open>str(b, 'ascii')\<close>: one code point per octet; \<open>UnicodeDecodeError\<close> when an octet is
  above 127.\<close>

definition str_ascii :: "byte list \<Rightarrow> error + pystr" where
  "str_ascii b = (if list_all (\<lambda>x. x < 128) b then Inr (map unat b) else Inl UnicodeDecodeError)"

text \<open>\<open>string.ascii_uppercase[i]\<close>: the 26 letters; \<open>IndexError\<close> from index 26 on (the
  indices computed by the module are never negative).\<close>

definition ascii_uppercase :: "nat \<Rightarrow> error + nat" where
  "ascii_uppercase i = (if i < 26 then Inr (65 + i) else Inl IndexError)"

text \<open>\<open>struct.pack('>H...', n, ...)\<close>: two octets per number, high octet first;
  \<open>struct.error\<close> when a number is outside \<open>0..0xFFFF\<close>.\<close>

fun struct_pack_H :: "int list \<Rightarrow> error + byte list" where
  "struct_pack_H [] = Inr []"
| "struct_pack_H (n # ns) =
     (if 0 \<le> n \<and> n \<le> 0xFFFF
      then (case struct_pack_H ns of
              Inl e \<Rightarrow> Inl e
            | Inr bs \<Rightarrow> Inr (word_of_int (n div 256) # word_of_int (n mod 256) # bs))
      else Inl StructError)"

text \<open>\<open>struct.unpack('>HHHHHH', b)\<close>: six numbers from exactly twelve octets.\<close>

definition unpack_H :: "byte list \<Rightarrow> nat \<Rightarrow> int" where
  "unpack_H b i = uint (b ! (2 * i)) * 256 + uint (b ! (2 * i + 1))"

definition struct_unpack_6H :: "byte list \<Rightarrow> error + int \<times> int \<times> int \<times> int \<times> int \<times> int" where
  "struct_unpack_6H b =
     (if length b = 12
      then Inr (unpack_H b 0, unpack_H b 1, unpack_H b 2, unpack_H b 3, unpack_H b 4, unpack_H b 5)
      else Inl StructError)"

text \<open>\<open>data[i]\<close> on \<open>bytes\<close> with a non-negative index, and the slice \<open>data[i:j]\<close>, which
  never raises.\<close>

definition byte_at :: "byte list \<Rightarrow> nat \<Rightarrow> error + byte" where
  "byte_at data i = (if i < length data then Inr (data ! i) else Inl IndexError)"

definition slice :: "'a list \<Rightarrow> nat \<Rightarrow> nat \<Rightarrow> 'a list" where
  "slice xs i j = take (j - i) (drop i xs)"

text \<open>\<open>bytes.strip()\<close> without argument removes ASCII whitespace (tab, LF, VT, FF, CR and
  space) from both ends.\<close>

definition is_space :: "byte \<Rightarrow> bool" where
  "is_space b = (b = 9 \<or> b = 10 \<or> b = 11 \<or> b = 12 \<or> b = 13 \<or> b = 32)"

definition strip :: "byte list \<Rightarrow> byte list" where
  "strip b = rev (dropWhile is_space (rev (dropWhile is_space b)))"

section \<open>\<open>_encode_name\<close>\<close>

text \<open>
  \<open>re.sub('.', _do_first_level_encoding, name)\<close>: the pattern \<open>.\<close> matches every character
  but the line feed, which is copied unchanged; every other character \<open>s\<close> is replaced by
  \<open>ascii_uppercase[s >> 4] + ascii_uppercase[s & 0x0f]\<close>.  The first replacement that raises
  ends the substitution.
\<close>

definition do_first_level_encoding :: "nat \<Rightarrow> error + pystr" where
  "do_first_level_encoding s =
     (case ascii_uppercase (s div 16) of
        Inl e \<Rightarrow> Inl e
      | Inr hi \<Rightarrow> (case ascii_uppercase (s mod 16) of
                    Inl e \<Rightarrow> Inl e
                  | Inr lo \<Rightarrow> Inr [hi, lo]))"

fun re_sub_dot :: "pystr \<Rightarrow> error + pystr" where
  "re_sub_dot [] = Inr []"
| "re_sub_dot (c # cs) =
     (if c = 10
      then (case re_sub_dot cs of Inl e \<Rightarrow> Inl e | Inr r \<Rightarrow> Inr (c # r))
      else (case do_first_level_encoding c of
              Inl e \<Rightarrow> Inl e
            | Inr pair \<Rightarrow> (case re_sub_dot cs of Inl e \<Rightarrow> Inl e | Inr r \<Rightarrow> Inr (pair @ r))))"

text \<open>The 16-character name field built by the first \<open>if\<close>/\<open>elif\<close>/\<open>else\<close>.\<close>

definition name_field :: "pystr \<Rightarrow> int \<Rightarrow> error + pystr" where
  "name_field name type =
     (if name = [42] then Inr (name @ replicate 15 0)
      else if length name > 15
      then (case py_chr type of Inl e \<Rightarrow> Inl e | Inr t \<Rightarrow> Inr (take 15 name @ t))
      else (case py_chr type of Inl e \<Rightarrow> Inl e | Inr t \<Rightarrow> Inr (ljust name 15 @ t)))"

text \<open>
  The scope loop calls \<open>string.split(scope, '.')\<close>.  The \<open>string\<close> module of Python 3 has no
  attribute \<open>split\<close> (it was a Python 2 function), so the attribute lookup raises
  \<open>AttributeError\<close> before the loop body runs.  The lookup is modelled as an optional
  function: \<open>None\<close> is the missing attribute.  The loop body is modelled as written.
\<close>

definition string_split :: "(pystr \<Rightarrow> pystr \<Rightarrow> pystr list) option" where
  "string_split = None"

fun scope_loop :: "pystr \<Rightarrow> pystr list \<Rightarrow> error + pystr" where
  "scope_loop encoded_scope [] = Inr encoded_scope"
| "scope_loop encoded_scope (s # rest) =
     (case py_chr (int (length s)) of
        Inl e \<Rightarrow> Inl e
      | Inr len \<Rightarrow> scope_loop (encoded_scope @ len @ s) rest)"

definition encode_scope :: "pystr \<Rightarrow> error + pystr" where
  "encode_scope scope =
     (case string_split of
        None \<Rightarrow> Inl AttributeError
      | Some split \<Rightarrow> scope_loop [] (split scope [46]))"

definition encode_name :: "pystr \<Rightarrow> int \<Rightarrow> pystr option \<Rightarrow> error + byte list" where
  "encode_name name type scope =
     (case name_field name type of
        Inl e \<Rightarrow> Inl e
      | Inr field \<Rightarrow>
          (case py_chr (int (length field) * 2) of
             Inl e \<Rightarrow> Inl e
           | Inr len \<Rightarrow>
               (case re_sub_dot field of
                  Inl e \<Rightarrow> Inl e
                | Inr enc \<Rightarrow>
                    (let encoded_name = len @ enc in
                     if scope \<noteq> None \<and> scope \<noteq> Some []
                     then (case encode_scope (the scope) of
                             Inl e \<Rightarrow> Inl e
                           | Inr encoded_scope \<Rightarrow> bytes_ascii (encoded_name @ encoded_scope @ [0]))
                     else bytes_ascii (encoded_name @ [0])))))"

section \<open>\<open>_prepare_net_name_query\<close>\<close>

text \<open>\<open>(is_broadcast and 0x0010) or 0x0000\<close> for a Boolean \<open>is_broadcast\<close>.\<close>

definition query_flags :: "bool \<Rightarrow> int" where
  "query_flags is_broadcast = (if is_broadcast then 0x0010 else 0x0000)"

definition prepare_net_name_query :: "int \<Rightarrow> bool \<Rightarrow> error + byte list" where
  "prepare_net_name_query trn_id is_broadcast =
     (case struct_pack_H [trn_id, query_flags is_broadcast, 1, 0, 0, 0] of
        Inl e \<Rightarrow> Inl e
      | Inr header \<Rightarrow>
          (case encode_name [42] 0 None of
             Inl e \<Rightarrow> Inl e
           | Inr name \<Rightarrow> Inr (header @ (name @ [0x00, 0x21, 0x00, 0x01]))))"

section \<open>\<open>_decode_ip_query_packet\<close>\<close>

text \<open>
  The loop \<open>for i in range(0, numnames)\<close>: each round reads the 15 octets at \<open>offset\<close>,
  strips them, decodes them as ASCII, then reads the octet at \<open>offset + 15\<close> and moves
  \<open>offset\<close> on by 18.  The pairs are returned in the order in which the loop appends them.
\<close>

fun decode_entries :: "byte list \<Rightarrow> nat \<Rightarrow> nat \<Rightarrow> error + (pystr \<times> byte) list" where
  "decode_entries data offset 0 = Inr []"
| "decode_entries data offset (Suc n) =
     (case str_ascii (strip (slice data offset (offset + 15))) of
        Inl e \<Rightarrow> Inl e
      | Inr mynme \<Rightarrow>
          (case byte_at data (offset + 15) of
             Inl e \<Rightarrow> Inl e
           | Inr type \<Rightarrow>
               (case decode_entries data (offset + 18) n of
                  Inl e \<Rightarrow> Inl e
                | Inr ret \<Rightarrow> Inr ((mynme, type) # ret))))"

text \<open>The header-unpack step: \<open>struct.unpack(HEADER_STRUCT_FORMAT, data[:HEADER_STRUCT_SIZE])\<close>.\<close>

definition unpack_header :: "byte list \<Rightarrow> error + int \<times> int \<times> int \<times> int \<times> int \<times> int" where
  "unpack_header data = struct_unpack_6H (slice data 0 HEADER_STRUCT_SIZE)"

text \<open>The fields \<open>is_response\<close>, \<open>opcode\<close>, \<open>flags\<close> and \<open>rcode\<close> are computed from \<open>code\<close>
  by shifts and masks that cannot raise, and are never used; they are left out.\<close>

definition decode_ip_query_packet :: "byte list \<Rightarrow> error + int \<times> (pystr \<times> byte) list option" where
  "decode_ip_query_packet data =
     (if length data < HEADER_STRUCT_SIZE then Inl Exception
      else (case unpack_header data of
              Inl e \<Rightarrow> Inl e
            | Inr (trn_id, code, question_count, answer_count, authority_count, additional_count) \<Rightarrow>
                (case byte_at data (HEADER_STRUCT_SIZE + 44) of
                   Inl e \<Rightarrow> Inl e
                 | Inr numnames \<Rightarrow>
                     if numnames > 0
                     then (case decode_entries data (HEADER_STRUCT_SIZE + 45) (unat numnames) of
                             Inl e \<Rightarrow> Inl e
                           | Inr ret \<Rightarrow> Inr (trn_id, Some ret))
                     else Inr (trn_id, None))))"

section \<open>\<open>_poll_for_query_packet\<close>\<close>

text \<open>
  The loop talks to the clock and to the socket.  What they answer is the script of the
  exchange: one \<open>iteration\<close> per round of the \<open>while True\<close> loop, holding the value of
  \<open>time.time()\<close> read at the top of the round and what \<open>select.select\<close> and then
  \<open>recvfrom\<close> do if the round gets that far.  Both calls may raise \<open>OSError\<close> with an errno
  (\<open>select.error\<close> and \<open>socket.error\<close> are \<open>OSError\<close>).
\<close>

datatype recv_result = Datagram "byte list" | RecvRaises nat

datatype select_result = NotReady | SelectRaises nat | Ready recv_result

datatype iteration = Iteration real select_result

definition EINTR :: nat where
  "EINTR = 4"

definition EAGAIN :: nat where
  "EAGAIN = 11"

text \<open>
  The handler \<open>except select.error as ex\<close>.  Its test \<open>type(ex) is tuple\<close> is about an
  exception object, whose type is never \<open>tuple\<close>; were it true, the comparison with
  \<open>errno.EINTR\<close> would raise \<open>NameError\<close>, the module \<open>errno\<close> not being imported.  The
  result \<open>None\<close> stands for a handler that ends without raising, after which the loop goes
  on; \<open>Some e\<close> is the exception it raises.
\<close>

definition type_is_tuple :: "nat \<Rightarrow> bool" where
  "type_is_tuple ex = False"

definition except_select_error :: "nat \<Rightarrow> error option" where
  "except_select_error ex =
     (if type_is_tuple ex then Some NameError else Some (OSError ex))"

text \<open>
  The loop, by recursion on the script.  The outer \<open>option\<close> is \<open>None\<close> when the script ends
  with the loop still running; \<open>Some (Inl e)\<close> is an exception leaving the loop,
  \<open>Some (Inr None)\<close> the return of Python's \<open>None\<close>, \<open>Some (Inr (Some ret))\<close> the return of a
  decoded list.  A datagram of length 0 reaches \<open>raise NotConnectedError\<close>, a name the module
  never defines: the statement raises \<open>NameError\<close>, which the handler does not catch, no more
  than the exceptions of the decoder.
\<close>

fun poll_loop ::
  "int \<Rightarrow> real \<Rightarrow> iteration list \<Rightarrow> (error + (pystr \<times> byte) list option) option" where
  "poll_loop wait_trn_id end_time [] = None"
| "poll_loop wait_trn_id end_time (Iteration current sel # rest) =
     (if current \<ge> end_time then Some (Inr None)
      else (case sel of
              SelectRaises ex \<Rightarrow>
                (case except_select_error ex of
                   Some e \<Rightarrow> Some (Inl e)
                 | None \<Rightarrow> poll_loop wait_trn_id end_time rest)
            | NotReady \<Rightarrow> Some (Inr None)
            | Ready (RecvRaises ex) \<Rightarrow>
                (case except_select_error ex of
                   Some e \<Rightarrow> Some (Inl e)
                 | None \<Rightarrow> poll_loop wait_trn_id end_time rest)
            | Ready (Datagram data) \<Rightarrow>
                if length data = 0 then Some (Inl NameError)
                else (case decode_ip_query_packet data of
                        Inl e \<Rightarrow> Some (Inl e)
                      | Inr (trn_id, ret) \<Rightarrow>
                          if trn_id = wait_trn_id then Some (Inr ret)
                          else poll_loop wait_trn_id end_time rest)))"

text \<open>\<open>end_time = time.time() + timeout\<close>, then the loop.\<close>

definition poll_for_query_packet ::
  "int \<Rightarrow> real \<Rightarrow> real \<Rightarrow> iteration list \<Rightarrow> (error + (pystr \<times> byte) list option) option" where
  "poll_for_query_packet wait_trn_id timeout start script =
     poll_loop wait_trn_id (start + timeout) script"

section \<open>\<open>query_ip_for_name\<close>\<close>

text \<open>
  The instance: its \<open>broadcast\<close> flag, and whether \<open>self.sock\<close> still holds the socket
  (\<open>close\<close> sets it to \<open>None\<close>).  The world of one call: the number \<open>random.randint(1, 0xFFFF)\<close>
  returns, the errno with which \<open>sendto\<close> raises if it does, the clock on entry to the poll
  loop, and the script of the loop.
\<close>

record netbios =
  broadcast :: bool
  sock_open :: bool

record world =
  randint :: int
  sendto_raises :: "nat option"
  start_time :: real
  script :: "iteration list"

definition close :: "netbios \<Rightarrow> netbios" where
  "close self = self\<lparr>sock_open := False\<rparr>"

text \<open>A call returns the arguments of every \<open>sendto\<close> it made, in order, and its outcome
  (\<open>None\<close> while the poll loop is still running at the end of the script).\<close>

type_synonym sendto_call = "byte list \<times> pystr \<times> int"

definition write_data :: "netbios \<Rightarrow> world \<Rightarrow> byte list \<Rightarrow> pystr \<Rightarrow> int \<Rightarrow> sendto_call list \<times> (error + unit)" where
  "write_data self w data ip port =
     (if \<not> sock_open self then ([], Inl AssertionError)
      else (case sendto_raises w of
              Some ex \<Rightarrow> ([(data, ip, port)], Inl (OSError ex))
            | None \<Rightarrow> ([(data, ip, port)], Inr ())))"

definition query_ip_for_name ::
  "netbios \<Rightarrow> pystr \<Rightarrow> int \<Rightarrow> real \<Rightarrow> world \<Rightarrow> sendto_call list \<times> (error + pystr list option) option" where
  "query_ip_for_name self ip port timeout w =
     (if \<not> sock_open self then ([], Some (Inl AssertionError))
      else
        (let trn_id = randint w in
         case prepare_net_name_query trn_id False of
           Inl e \<Rightarrow> ([], Some (Inl e))
         | Inr data \<Rightarrow>
             (case write_data self w data ip port of
                (calls, Inl e) \<Rightarrow> (calls, Some (Inl e))
              | (calls, Inr _) \<Rightarrow>
                  (calls,
                   case poll_for_query_packet trn_id timeout (start_time w) (script w) of
                     None \<Rightarrow> None
                   | Some (Inl e) \<Rightarrow> Some (Inl e)
                   | Some (Inr ret) \<Rightarrow>
                       if ret \<noteq> None \<and> ret \<noteq> Some []
                       then Some (Inr (Some (map fst (filter (\<lambda>s. snd s = TYPE_SERVER) (the ret)))))
                       else Some (Inr None)))))"

section \<open>What the claims talk about\<close>

text \<open>The name and the type of entry \<open>i\<close> of a reply, as the decoder's loop reads them: the
  entries are 18 octets apart and start at offset \<open>HEADER_STRUCT_SIZE + 45 = 57\<close>.\<close>

definition entry_name :: "byte list \<Rightarrow> nat \<Rightarrow> byte list" where
  "entry_name data i = strip (slice data (57 + 18 * i) (57 + 18 * i + 15))"

definition entry_type :: "byte list \<Rightarrow> nat \<Rightarrow> byte" where
  "entry_type data i = data ! (57 + 18 * i + 15)"

text \<open>The trimming that the specification describes, in its words: trailing space and NUL
  padding removed on the right.  The code calls \<open>strip\<close> instead.\<close>

definition spec_right_trim :: "byte list \<Rightarrow> byte list" where
  "spec_right_trim b = rev (dropWhile (\<lambda>x. x = 32 \<or> x = 0) (rev b))"

subsection \<open>Sample datagrams\<close>

text \<open>A reply header with transaction id \<open>0x1234\<close> and one answer, and the 44 octets that
  precede the count of names.\<close>

definition reply_preamble :: "byte list" where
  "reply_preamble =
     [0x12, 0x34, 0x84, 0x00, 0x00, 0x00, 0x00, 0x01, 0x00, 0x00, 0x00, 0x00] @ replicate 44 0x00"

text \<open>\<open>WORKSTATION\<close> padded with four spaces, as text and as octets.\<close>

definition WORKSTATION :: pystr where
  "WORKSTATION = [87, 79, 82, 75, 83, 84, 65, 84, 73, 79, 78]"

definition workstation_entry :: "byte list" where
  "workstation_entry = [87, 79, 82, 75, 83, 84, 65, 84, 73, 79, 78, 32, 32, 32, 32]"

text \<open>One entry \<open>WORKSTATION\<close> of type \<open>0x20\<close> with its two flag octets (75 octets).\<close>

definition reply_workstation :: "byte list" where
  "reply_workstation = reply_preamble @ [0x01] @ workstation_entry @ [0x20, 0x04, 0x00]"



text \<open>One entry whose name field is a space, \<open>AB\<close> and twelve NUL octets.\<close>

definition reply_nul_padded :: "byte list" where
  "reply_nul_padded =
     reply_preamble @ [0x01] @ ([32, 65, 66] @ replicate 12 0x00) @ [0x20, 0x04, 0x00]"



section \<open>Rounds of the poll loop\<close>

text \<open>A round that, before the deadline, receives a datagram which the decoder accepts and
  whose decoded transaction id differs from the one waited for.\<close>

definition mismatched :: "int \<Rightarrow> real \<Rightarrow> iteration \<Rightarrow> bool" where
  "mismatched wait_trn_id end_time it =
     (case it of
        Iteration current (Ready (Datagram data)) \<Rightarrow>
          current < end_time \<and>
          (case decode_ip_query_packet data of
             Inr (trn_id, ret) \<Rightarrow> trn_id \<noteq> wait_trn_id
           | Inl e \<Rightarrow> False)
      | _ \<Rightarrow> False)"

text \<open>A reply to somebody else's query (transaction id \<open>0x4321\<close>), a reply to ours that
  reports no names, and a reply to ours with a group name of type \<open>0x00\<close> followed by
  \<open>WORKSTATION\<close> of type \<open>0x20\<close>.\<close>

definition reply_other :: "byte list" where
  "reply_other =
     [0x43, 0x21, 0x84, 0x00, 0x00, 0x00, 0x00, 0x01, 0x00, 0x00, 0x00, 0x00] @ replicate 44 0x00
     @ [0x01] @ workstation_entry @ [0x20, 0x04, 0x00]"

definition reply_no_names :: "byte list" where
  "reply_no_names = reply_preamble @ [0x00]"

definition WORKGROUP :: pystr where
  "WORKGROUP = [87, 79, 82, 75, 71, 82, 79, 85, 80]"

definition reply_two_entries :: "byte list" where
  "reply_two_entries =
     reply_preamble @ [0x02]
     @ [87, 79, 82, 75, 71, 82, 79, 85, 80, 32, 32, 32, 32, 32, 32] @ [0x00, 0x84, 0x00]
     @ workstation_entry @ [0x20, 0x04, 0x00]"

text \<open>An instance built with \<open>broadcast=True\<close>, and two worlds for it: one in which a foreign
  reply arrives before the reply to the query, one in which nothing arrives.\<close>

definition broadcast_instance :: netbios where
  "broadcast_instance = \<lparr>broadcast = True, sock_open = True\<rparr>"

definition world_answered :: world where
  "world_answered =
     \<lparr>randint = 0x1234, sendto_raises = None, start_time = 0,
      script = [Iteration 1 (Ready (Datagram reply_other)),
                Iteration 2 (Ready (Datagram reply_two_entries))]\<rparr>"

definition world_silent :: world where
  "world_silent =
     \<lparr>randint = 0x1234, sendto_raises = None, start_time = 0,
      script = [Iteration 1 (Ready (Datagram reply_other)), Iteration 30 NotReady]\<rparr>"


section \<open>The query builder\<close>

lemma encode_wildcard:
  "encode_name [42] 0 None = Inr (0x20 # [67, 75] @ replicate 30 65 @ [0x00])"
  by code_simp

lemma uint_high_octet:
  "0 \<le> t \<Longrightarrow> t \<le> 0xFFFF \<Longrightarrow> uint (word_of_int (t div 256) :: byte) = t div 256"
  by (simp add: uint_word_of_int_eq take_bit_int_eq_self)

lemma uint_low_octet: "uint (word_of_int (t mod 256) :: byte) = t mod 256"
  by (simp add: uint_word_of_int_eq take_bit_eq_mod)

lemma unpack_prepared_header:
  assumes "0 \<le> t" and "t \<le> 0xFFFF"
  shows "\<exists>d. prepare_net_name_query t b = Inr d
             \<and> unpack_header d = Inr (t, query_flags b, 1, 0, 0, 0)"
  using assms
  by (simp add: prepare_net_name_query_def encode_wildcard query_flags_def unpack_header_def
      struct_unpack_6H_def slice_def HEADER_STRUCT_SIZE_def unpack_H_def
      uint_high_octet uint_low_octet)

text \<open>
  C1, as the claim states it, gives the header of the query with transaction id \<open>0x1234\<close> as
  \<open>34 12 00 10 ...\<close>.  The format \<open>>HHHHHH\<close> is big-endian: the builder emits \<open>12 34\<close>, so the
  claimed header is not the one produced.
\<close>

theorem prepare_net_name_query_header_not_little_endian:
  "map_sum id (take 12) (prepare_net_name_query 0x1234 True)
     = Inr [0x12, 0x34, 0x00, 0x10, 0x00, 0x01, 0x00, 0x00, 0x00, 0x00, 0x00, 0x00]
   \<and> map_sum id (take 12) (prepare_net_name_query 0x1234 True)
     \<noteq> Inr [0x34, 0x12, 0x00, 0x10, 0x00, 0x01, 0x00, 0x00, 0x00, 0x00, 0x00, 0x00]"
  by code_simp

text \<open>
  C1 (amended): for every transaction id \<open>t\<close> in \<open>0..0xFFFF\<close> and Boolean \<open>b\<close> the builder returns
  the 12-octet header packing \<open>(t, flags, 1, 0, 0, 0)\<close> as 16-bit words with the high octet
  first, \<open>flags = 0x0010\<close> if \<open>b\<close> else \<open>0x0000\<close>, followed by the encoded wildcard name (the
  length octet \<open>0x20\<close>, the 32 characters \<open>CK\<close> and thirty \<open>A\<close>, and the terminating NUL) and the
  four octets \<open>00 21 00 01\<close>; outside that range \<open>struct.pack\<close> raises.  For \<open>t = 0x1234\<close> and
  broadcast the datagram is \<open>12 34 00 10 00 01 00 00 00 00 00 00\<close>, \<open>20\<close>, the 32 characters,
  \<open>00\<close>, \<open>00 21 00 01\<close>.
\<close>

theorem prepare_net_name_query_bytes:
  "prepare_net_name_query t b =
     (if 0 \<le> t \<and> t \<le> 0xFFFF
      then Inr ([word_of_int (t div 256), word_of_int (t mod 256),
                 0x00, if b then 0x10 else 0x00, 0x00, 0x01, 0x00, 0x00, 0x00, 0x00, 0x00, 0x00]
                @ (0x20 # [67, 75] @ replicate 30 65 @ [0x00])
                @ [0x00, 0x21, 0x00, 0x01])
      else Inl StructError)
   \<and> prepare_net_name_query 0x1234 True =
       Inr ([0x12, 0x34, 0x00, 0x10, 0x00, 0x01, 0x00, 0x00, 0x00, 0x00, 0x00, 0x00]
            @ (0x20 # [67, 75] @ replicate 30 65 @ [0x00])
            @ [0x00, 0x21, 0x00, 0x01])"
proof
  show "prepare_net_name_query t b =
     (if 0 \<le> t \<and> t \<le> 0xFFFF
      then Inr ([word_of_int (t div 256), word_of_int (t mod 256),
                 0x00, if b then 0x10 else 0x00, 0x00, 0x01, 0x00, 0x00, 0x00, 0x00, 0x00, 0x00]
                @ (0x20 # [67, 75] @ replicate 30 65 @ [0x00])
                @ [0x00, 0x21, 0x00, 0x01])
      else Inl StructError)"
    by (simp add: prepare_net_name_query_def encode_wildcard query_flags_def)
  show "prepare_net_name_query 0x1234 True =
       Inr ([0x12, 0x34, 0x00, 0x10, 0x00, 0x01, 0x00, 0x00, 0x00, 0x00, 0x00, 0x00]
            @ (0x20 # [67, 75] @ replicate 30 65 @ [0x00])
            @ [0x00, 0x21, 0x00, 0x01])"
    by code_simp
qed

text \<open>
  C9: for every transaction id in \<open>0..0xFFFF\<close> and either broadcast flag, the header-unpack
  step of the decoder, applied to the datagram the builder returns, gives back the
  transaction id, the flags word and the counts \<open>1, 0, 0, 0\<close>.
\<close>

theorem header_round_trip:
  assumes "0 \<le> t" and "t \<le> 0xFFFF"
  shows "\<exists>d. prepare_net_name_query t b = Inr d
             \<and> unpack_header d = Inr (t, query_flags b, 1, 0, 0, 0)"
  using assms by (rule unpack_prepared_header)

theorem header_round_trip_witness:
  "(0::int) \<le> 0x1234 \<and> (0x1234::int) \<le> 0xFFFF
   \<and> (\<exists>d. prepare_net_name_query 0x1234 True = Inr d
            \<and> unpack_header d = Inr (0x1234, 0x0010, 1, 0, 0, 0))"
  using header_round_trip [of "0x1234" True] by (simp add: query_flags_def)

section \<open>The packet decoder\<close>

lemma decode_entries_complete:
  "off + 18 * n \<le> length data + 2 \<Longrightarrow>
   decode_entries data off n =
     (if \<forall>i<n. list_all (\<lambda>x. x < 128) (strip (slice data (off + 18 * i) (off + 18 * i + 15)))
      then Inr (map (\<lambda>i. (map unat (strip (slice data (off + 18 * i) (off + 18 * i + 15))),
                          data ! (off + 18 * i + 15))) [0..<n])
      else Inl UnicodeDecodeError)"
proof (induction n arbitrary: off)
  case 0
  then show ?case by simp
next
  case (Suc n)
  have ix: "off + 15 < length data" using Suc.prems by simp
  have rec: "(off + 18) + 18 * n \<le> length data + 2" using Suc.prems by simp
  have shift: "\<And>i. off + 18 + 18 * i = off + 18 * Suc i" by simp
  show ?case
    unfolding decode_entries.simps Suc.IH [OF rec] map_upt_Suc All_less_Suc2 shift
    using ix by (simp add: str_ascii_def byte_at_def del: upt_Suc)
qed

lemma decode_entries_short:
  "0 < n \<Longrightarrow> length data + 2 < off + 18 * n \<Longrightarrow>
   decode_entries data off n = Inl IndexError \<or> decode_entries data off n = Inl UnicodeDecodeError"
proof (induction n arbitrary: off)
  case 0
  then show ?case by simp
next
  case (Suc n)
  show ?case
  proof (cases "n = 0")
    case True
    with Suc.prems have "\<not> off + 15 < length data" by simp
    then show ?thesis by (simp add: str_ascii_def byte_at_def)
  next
    case False
    with Suc.prems have "0 < n" "length data + 2 < (off + 18) + 18 * n" by simp_all
    from Suc.IH [OF this] show ?thesis
      by (auto simp: str_ascii_def byte_at_def)
  qed
qed

lemma unpack_header_long:
  "12 \<le> length data \<Longrightarrow> unpack_header data =
     Inr (unpack_H data 0, unpack_H data 1, unpack_H data 2,
          unpack_H data 3, unpack_H data 4, unpack_H data 5)"
  by (simp add: unpack_header_def struct_unpack_6H_def slice_def HEADER_STRUCT_SIZE_def unpack_H_def)

text \<open>
  C3, as the claim states it, has each name right-trimmed of trailing space and NUL padding.
  The decoder calls \<open>strip()\<close>: a name field holding a space, \<open>AB\<close> and twelve NULs comes out as
  \<open>AB\<close> followed by the twelve NULs, not as the right-trimmed \<open> AB\<close>.
\<close>

theorem decode_strip_is_not_right_trim:
  "57 + 18 * unat (reply_nul_padded ! 56) \<le> length reply_nul_padded
   \<and> decode_ip_query_packet reply_nul_padded
       = Inr (0x1234, Some [([65, 66, 0, 0, 0, 0, 0, 0, 0, 0, 0, 0, 0, 0], 0x20)])
   \<and> map unat (spec_right_trim (slice reply_nul_padded 57 72)) = [32, 65, 66]
   \<and> decode_ip_query_packet reply_nul_padded
       \<noteq> Inr (0x1234, Some [(map unat (spec_right_trim (slice reply_nul_padded 57 72)),
                               reply_nul_padded ! 72)])"
  by code_simp

text \<open>
  C3 (amended): for every reply datagram long enough for its declared record count
  (\<open>57 + 18 * numnames \<le> len(data)\<close>, \<open>numnames\<close> the octet at offset 56), the decoder returns
  \<open>(transaction id, None)\<close> when \<open>numnames = 0\<close>; when \<open>numnames = k > 0\<close> it returns exactly \<open>k\<close>
  (name, type) pairs read from consecutive 18-octet entries starting at offset 57, each name
  being octets \<open>[0:15]\<close> of its entry with ASCII whitespace stripped from both ends (NUL
  octets are kept) and decoded as ASCII, each type being octet \<open>[15]\<close>; it raises
  \<open>UnicodeDecodeError\<close> instead when a stripped name holds an octet above \<open>0x7F\<close>.
\<close>

theorem decode_ip_query_packet_entries:
  assumes "57 + 18 * unat (data ! 56) \<le> length data"
  shows "decode_ip_query_packet data =
     (if data ! 56 = 0 then Inr (unpack_H data 0, None)
      else if \<forall>i < unat (data ! 56). list_all (\<lambda>x. x < 128) (entry_name data i)
      then Inr (unpack_H data 0,
                Some (map (\<lambda>i. (map unat (entry_name data i), entry_type data i))
                        [0..<unat (data ! 56)]))
      else Inl UnicodeDecodeError)"
proof -
  have len: "12 \<le> length data" "56 < length data" using assms by simp_all
  have ent: "57 + 18 * unat (data ! 56) \<le> length data + 2" using assms by simp
  show ?thesis
    using len
    by (auto simp add: decode_ip_query_packet_def unpack_header_long byte_at_def
        HEADER_STRUCT_SIZE_def decode_entries_complete [OF ent] entry_name_def entry_type_def
        word_greater_zero_iff)
qed

theorem decode_ip_query_packet_entries_witness:
  "57 + 18 * unat (reply_workstation ! 56) \<le> length reply_workstation
   \<and> reply_workstation ! 56 = 1
   \<and> decode_ip_query_packet reply_workstation = Inr (0x1234, Some [(WORKSTATION, 0x20)])
   \<and> (if reply_workstation ! 56 = 0 then Inr (unpack_H reply_workstation 0, None)
        else if \<forall>i < unat (reply_workstation ! 56).
                  list_all (\<lambda>x. x < 128) (entry_name reply_workstation i)
        then Inr (unpack_H reply_workstation 0,
                  Some (map (\<lambda>i. (map unat (entry_name reply_workstation i),
                                   entry_type reply_workstation i))
                          [0..<unat (reply_workstation ! 56)]))
        else Inl UnicodeDecodeError)
       = Inr (0x1234, Some [(WORKSTATION, 0x20)])"
proof -
  have long: "57 + 18 * unat (reply_workstation ! 56) \<le> length reply_workstation"
    by code_simp
  have count: "reply_workstation ! 56 = 1"
    by code_simp
  have val: "decode_ip_query_packet reply_workstation = Inr (0x1234, Some [(WORKSTATION, 0x20)])"
    by code_simp
  from decode_ip_query_packet_entries [OF long] val long count show ?thesis
    by simp
qed





section \<open>The poll loop\<close>

lemma decode_empty: "decode_ip_query_packet [] = Inl Exception"
  by (simp add: decode_ip_query_packet_def HEADER_STRUCT_SIZE_def)

lemma poll_loop_mismatched:
  "mismatched w e it \<Longrightarrow> poll_loop w e (it # rest) = poll_loop w e rest"
  by (cases it)
     (auto simp: mismatched_def decode_empty
           split: select_result.splits recv_result.splits sum.splits)

lemma poll_loop_skip:
  "list_all (mismatched w e) pre \<Longrightarrow> poll_loop w e (pre @ rest) = poll_loop w e rest"
  by (induction pre) (simp_all add: poll_loop_mismatched)


lemma poll_loop_matched:
  "current < e \<Longrightarrow> decode_ip_query_packet data = Inr (w, ret) \<Longrightarrow>
   poll_loop w e (Iteration current (Ready (Datagram data)) # rest) = Some (Inr ret)"
  by (cases "data = []") (auto simp: decode_empty)

lemma decode_reply_other:
  "decode_ip_query_packet reply_other = Inr (0x4321, Some [(WORKSTATION, 0x20)])"
  by code_simp


lemma decode_reply_two_entries:
  "decode_ip_query_packet reply_two_entries
     = Inr (0x1234, Some [(WORKGROUP, 0x00), (WORKSTATION, 0x20)])"
  by code_simp



lemma poll_loop_decoder_raises:
  "current < e \<Longrightarrow> data \<noteq> [] \<Longrightarrow> decode_ip_query_packet data = Inl err \<Longrightarrow>
   poll_loop w e (Iteration current (Ready (Datagram data)) # rest) = Some (Inl err)"
  by simp



text \<open>
  C7 fails on the code: whatever errno \<open>select.select\<close> raises with, \<open>EINTR\<close> and \<open>EAGAIN\<close>
  included, the handler raises it again, since its test \<open>type(ex) is tuple\<close> never holds.  A
  wait interrupted before the deadline ends the exchange with that \<open>OSError\<close>, although a
  reply is ready in the next round.
\<close>

theorem select_interruption_surfaces:
  "poll_loop w e (Iteration current (SelectRaises ex) # rest)
     = (if e \<le> current then Some (Inr None) else Some (Inl (OSError ex)))
   \<and> poll_for_query_packet 0x1234 30 0
        [Iteration 1 (SelectRaises EINTR), Iteration 2 (Ready (Datagram reply_workstation))]
       = Some (Inl (OSError EINTR))
   \<and> poll_for_query_packet 0x1234 30 0
        [Iteration 1 (SelectRaises EAGAIN), Iteration 2 (Ready (Datagram reply_workstation))]
       = Some (Inl (OSError EAGAIN))"
  by (simp add: poll_for_query_packet_def except_select_error_def type_is_tuple_def)

section \<open>The public operation\<close>

lemma decode_entries_length:
  "decode_entries data off n = Inr ret \<Longrightarrow> length ret = n"
  by (induction n arbitrary: off ret) (auto split: sum.splits)

lemma decode_list_nonempty:
  "decode_ip_query_packet data = Inr (t, Some ret) \<Longrightarrow> ret \<noteq> []"
  by (auto simp: decode_ip_query_packet_def word_greater_zero_iff unat_eq_0
           dest!: decode_entries_length split: if_splits sum.splits prod.splits)

lemma decode_no_names:
  "57 \<le> length data \<Longrightarrow> data ! 56 = 0 \<Longrightarrow>
   decode_ip_query_packet data = Inr (unpack_H data 0, None)"
  by (simp add: decode_ip_query_packet_def unpack_header_long byte_at_def HEADER_STRUCT_SIZE_def)

lemma prepare_not_broadcast:
  "1 \<le> t \<Longrightarrow> t \<le> 0xFFFF \<Longrightarrow>
   prepare_net_name_query t False =
     Inr ([word_of_int (t div 256), word_of_int (t mod 256),
           0x00, 0x00, 0x00, 0x01, 0x00, 0x00, 0x00, 0x00, 0x00, 0x00]
          @ (0x20 # [67, 75] @ replicate 30 65 @ [0x00]) @ [0x00, 0x21, 0x00, 0x01])"
  by (simp add: prepare_net_name_query_def encode_wildcard query_flags_def)

lemma query_ip_for_name_outcome:
  assumes "sock_open self" "1 \<le> randint w" "randint w \<le> 0xFFFF" "sendto_raises w = None"
  shows "snd (query_ip_for_name self ip port timeout w) =
     (case poll_for_query_packet (randint w) timeout (start_time w) (script w) of
        None \<Rightarrow> None
      | Some (Inl e) \<Rightarrow> Some (Inl e)
      | Some (Inr ret) \<Rightarrow>
          if ret \<noteq> None \<and> ret \<noteq> Some []
          then Some (Inr (Some (map fst (filter (\<lambda>s. snd s = TYPE_SERVER) (the ret)))))
          else Some (Inr None))"
  using assms
  by (simp add: query_ip_for_name_def prepare_not_broadcast write_data_def Let_def
           del: append.simps replicate.simps)

text \<open>
  C2: take a call on an open socket whose datagram is sent, and let the rounds of the
  exchange begin with any number of discarded datagrams.  If the next round is at or after
  the deadline, or \<open>select\<close> reports nothing to read, the result is \<open>None\<close>; if it receives a
  reply with the transaction id of the query and \<open>numnames = 0\<close>, the result is \<open>None\<close>; if it
  receives a datagram that decodes to that transaction id and a record list, the result is
  the list of the names of the entries of type \<open>0x20\<close>, in order.
\<close>

theorem query_ip_for_name_result:
  assumes "sock_open self" and "1 \<le> randint w" and "randint w \<le> 0xFFFF"
    and "sendto_raises w = None"
    and "script w = pre @ Iteration current sel # rest"
    and "list_all (mismatched (randint w) (start_time w + timeout)) pre"
  shows
   "(start_time w + timeout \<le> current \<or> sel = NotReady \<longrightarrow>
       snd (query_ip_for_name self ip port timeout w) = Some (Inr None))
    \<and> (current < start_time w + timeout \<and> sel = Ready (Datagram data) \<and> 57 \<le> length data
         \<and> unpack_H data 0 = randint w \<and> data ! 56 = 0 \<longrightarrow>
       snd (query_ip_for_name self ip port timeout w) = Some (Inr None))
    \<and> (current < start_time w + timeout \<and> sel = Ready (Datagram data)
         \<and> decode_ip_query_packet data = Inr (randint w, Some ret) \<longrightarrow>
       snd (query_ip_for_name self ip port timeout w)
         = Some (Inr (Some (map fst (filter (\<lambda>s. snd s = 0x20) ret)))))"
proof (intro conjI impI)
  note q = query_ip_for_name_outcome [OF assms(1-4), of ip port timeout]
  note skip = poll_loop_skip [OF assms(6)]
  {
    assume "start_time w + timeout \<le> current \<or> sel = NotReady"
    then have "poll_for_query_packet (randint w) timeout (start_time w) (script w) = Some (Inr None)"
      by (auto simp: poll_for_query_packet_def assms(5) skip)
    then show "snd (query_ip_for_name self ip port timeout w) = Some (Inr None)"
      by (simp add: q)
  }
  {
    assume a: "current < start_time w + timeout \<and> sel = Ready (Datagram data) \<and> 57 \<le> length data
         \<and> unpack_H data 0 = randint w \<and> data ! 56 = 0"
    then have "decode_ip_query_packet data = Inr (randint w, None)"
      using decode_no_names [of data] by simp
    with a have "poll_for_query_packet (randint w) timeout (start_time w) (script w) = Some (Inr None)"
      by (simp add: poll_for_query_packet_def assms(5) skip poll_loop_matched del: poll_loop.simps)
    then show "snd (query_ip_for_name self ip port timeout w) = Some (Inr None)"
      by (simp add: q)
  }
  {
    assume a: "current < start_time w + timeout \<and> sel = Ready (Datagram data)
         \<and> decode_ip_query_packet data = Inr (randint w, Some ret)"
    then have ne: "ret \<noteq> []" by (auto dest: decode_list_nonempty)
    from a have "poll_for_query_packet (randint w) timeout (start_time w) (script w) = Some (Inr (Some ret))"
      by (simp add: poll_for_query_packet_def assms(5) skip poll_loop_matched del: poll_loop.simps)
    with ne show "snd (query_ip_for_name self ip port timeout w)
         = Some (Inr (Some (map fst (filter (\<lambda>s. snd s = 0x20) ret))))"
      by (simp add: q TYPE_SERVER_def)
  }
qed

theorem query_ip_for_name_result_witness:
  "sock_open broadcast_instance
   \<and> 1 \<le> randint world_answered \<and> randint world_answered \<le> 0xFFFF
   \<and> sendto_raises world_answered = None
   \<and> script world_answered
       = [Iteration 1 (Ready (Datagram reply_other))]
         @ Iteration 2 (Ready (Datagram reply_two_entries)) # []
   \<and> list_all (mismatched (randint world_answered) (start_time world_answered + 30))
        [Iteration 1 (Ready (Datagram reply_other))]
   \<and> snd (query_ip_for_name broadcast_instance [] 137 30 world_answered)
       = Some (Inr (Some [WORKSTATION]))
   \<and> snd (query_ip_for_name broadcast_instance [] 137 30 world_silent) = Some (Inr None)"
proof -
  have s: "sock_open broadcast_instance" by (simp add: broadcast_instance_def)
  have r: "1 \<le> randint world_answered" "randint world_answered \<le> 0xFFFF"
    "sendto_raises world_answered = None"
    by (simp_all add: world_answered_def)
  have r': "1 \<le> randint world_silent" "randint world_silent \<le> 0xFFFF"
    "sendto_raises world_silent = None"
    by (simp_all add: world_silent_def)
  have sc: "script world_answered
       = [Iteration 1 (Ready (Datagram reply_other))]
         @ Iteration 2 (Ready (Datagram reply_two_entries)) # []"
    by (simp add: world_answered_def)
  have sc': "script world_silent
       = [Iteration 1 (Ready (Datagram reply_other))] @ Iteration 30 NotReady # []"
    by (simp add: world_silent_def)
  have m: "list_all (mismatched (randint world_answered) (start_time world_answered + 30))
        [Iteration 1 (Ready (Datagram reply_other))]"
    by (simp add: world_answered_def mismatched_def decode_reply_other)
  have m': "list_all (mismatched (randint world_silent) (start_time world_silent + 30))
        [Iteration 1 (Ready (Datagram reply_other))]"
    by (simp add: world_silent_def mismatched_def decode_reply_other)
  have t: "2 < start_time world_answered + 30" by (simp add: world_answered_def)
  have d: "decode_ip_query_packet reply_two_entries
       = Inr (randint world_answered, Some [(WORKGROUP, 0x00), (WORKSTATION, 0x20)])"
    by (simp add: decode_reply_two_entries world_answered_def)
  from query_ip_for_name_result [OF s r sc m,
      where data = reply_two_entries and ret = "[(WORKGROUP, 0x00), (WORKSTATION, 0x20)]"
        and ip = "[]" and port = 137] t d
  have a: "snd (query_ip_for_name broadcast_instance [] 137 30 world_answered)
       = Some (Inr (Some [WORKSTATION]))"
    by simp
  from query_ip_for_name_result [OF s r' sc' m', where ip = "[]" and port = 137]
  have b: "snd (query_ip_for_name broadcast_instance [] 137 30 world_silent) = Some (Inr None)"
    by simp
  from s r sc m a b show ?thesis by simp
qed

text \<open>
  C10: every call on an open socket, with a transaction id that \<open>random.randint(1, 0xFFFF)\<close>
  can return, hands exactly one datagram to \<open>sendto\<close>; it is the query built with
  \<open>is_broadcast=False\<close>, its flags word is \<open>0x0000\<close> (octets 2 and 3 are zero), whatever the
  \<open>broadcast\<close> flag of the instance.
\<close>

theorem query_ip_for_name_flags_zero:
  assumes "sock_open self" and "1 \<le> randint w" and "randint w \<le> 0xFFFF"
  shows "\<exists>d. fst (query_ip_for_name self ip port timeout w) = [(d, ip, port)]
           \<and> prepare_net_name_query (randint w) False = Inr d
           \<and> unpack_header d = Inr (randint w, 0x0000, 1, 0, 0, 0)
           \<and> d ! 2 = 0x00 \<and> d ! 3 = 0x00"
proof -
  from assms(2,3) have r: "0 \<le> randint w" "randint w \<le> 0xFFFF" by simp_all
  from unpack_prepared_header [OF r, of False] obtain d where
    d: "prepare_net_name_query (randint w) False = Inr d"
       "unpack_header d = Inr (randint w, 0x0000, 1, 0, 0, 0)"
    by (auto simp: query_flags_def)
  from d(1) assms have b: "d ! 2 = 0x00 \<and> d ! 3 = 0x00"
    by (auto simp add: prepare_not_broadcast)
  from assms(1) d(1) have "fst (query_ip_for_name self ip port timeout w) = [(d, ip, port)]"
    by (simp add: query_ip_for_name_def write_data_def Let_def split: option.splits)
  with d b show ?thesis by blast
qed

theorem query_ip_for_name_flags_zero_witness:
  "broadcast broadcast_instance \<and> sock_open broadcast_instance
   \<and> 1 \<le> randint world_answered \<and> randint world_answered \<le> 0xFFFF
   \<and> (\<exists>d. fst (query_ip_for_name broadcast_instance [] 137 30 world_answered) = [(d, [], 137)]
           \<and> prepare_net_name_query 0x1234 False = Inr d
           \<and> unpack_header d = Inr (0x1234, 0x0000, 1, 0, 0, 0)
           \<and> d ! 2 = 0x00 \<and> d ! 3 = 0x00)"
proof -
  have s: "sock_open broadcast_instance" "broadcast broadcast_instance"
    by (simp_all add: broadcast_instance_def)
  have r: "1 \<le> randint world_answered" "randint world_answered \<le> 0xFFFF"
    by (simp_all add: world_answered_def)
  have v: "randint world_answered = 0x1234" by (simp add: world_answered_def)
  from query_ip_for_name_flags_zero [OF s(1) r, of "[]" 137 30] s r show ?thesis
    unfolding v by simp
qed

section \<open>The name encoder\<close>

lemma first_level_ok:
  "do_first_level_encoding c =
     (if c < 416 then Inr [65 + c div 16, 65 + c mod 16] else Inl IndexError)"
proof -
  have "c mod 16 < 26" using mod_less_divisor [of 16 c] by linarith
  moreover have "c div 16 < 26 \<longleftrightarrow> c < 416" by (simp add: div_less_iff_less_mult)
  ultimately show ?thesis
    by (simp add: do_first_level_encoding_def ascii_uppercase_def)
qed

lemma re_sub_dot_raises:
  "\<not> list_all (\<lambda>c. c < 416) s \<Longrightarrow> re_sub_dot s = Inl IndexError"
  by (induction s) (auto simp: first_level_ok split: sum.splits)

lemma re_sub_dot_returns:
  "list_all (\<lambda>c. c < 416) s \<Longrightarrow> \<exists>r. re_sub_dot s = Inr r \<and> list_all (\<lambda>c. c < 128) r"
proof (induction s)
  case Nil
  then show ?case by simp
next
  case (Cons c s)
  then obtain r where r: "re_sub_dot s = Inr r" "list_all (\<lambda>c. c < 128) r" by auto
  have m: "c mod 16 < 16" by simp
  from Cons.prems have "c div 16 < 26" by (simp add: div_less_iff_less_mult)
  with r m Cons.prems show ?case
    by (auto simp: first_level_ok)
qed

lemma of_nat_ascii: "c < 128 \<Longrightarrow> (of_nat c :: byte) < 128"
  by (simp add: word_less_nat_alt unat_of_nat)

lemma bytes_ascii_ascii:
  "bytes_ascii s = Inr out \<Longrightarrow> list_all (\<lambda>b. b < 128) out"
  by (auto simp: bytes_ascii_def list_all_iff of_nat_ascii split: if_splits)

lemma encode_name_ascii_out:
  "encode_name name type scope = Inr out \<Longrightarrow> list_all (\<lambda>b. b < 128) out"
  by (auto simp: encode_name_def Let_def dest: bytes_ascii_ascii split: sum.splits if_splits)

lemma encode_field:
  assumes "name_field name type = Inr field" and "length field = 16"
  shows "(\<exists>out. encode_name name type None = Inr out) \<longleftrightarrow> list_all (\<lambda>c. c < 416) field"
proof (cases "list_all (\<lambda>c. c < 416) field")
  case True
  from re_sub_dot_returns [OF True] obtain r where
    r: "re_sub_dot field = Inr r" "list_all (\<lambda>c. c < 128) r" by blast
  with assms True show ?thesis
    by (simp add: encode_name_def py_chr_def bytes_ascii_def)
next
  case False
  from re_sub_dot_raises [OF False] assms False show ?thesis
    by (simp add: encode_name_def py_chr_def)
qed

lemma encode_name_no_scope:
  assumes "name \<noteq> [42]"
  shows "(\<exists>out. encode_name name type None = Inr out)
     \<longleftrightarrow> (0 \<le> type \<and> type < 416 \<and> list_all (\<lambda>c. c < 416) (take 15 name))"
proof (cases "0 \<le> type \<and> type < 0x110000")
  case False
  with assms show ?thesis
    by (auto simp: encode_name_def name_field_def py_chr_def)
next
  case True
  let ?field = "(if length name > 15 then take 15 name else ljust name 15) @ [nat type]"
  from True assms have f: "name_field name type = Inr ?field"
    by (simp add: name_field_def py_chr_def)
  have l: "length ?field = 16" by (simp add: ljust_def)
  from True have t: "nat type < 416 \<longleftrightarrow> type < 416" by auto
  have "list_all (\<lambda>c. c < 416) ?field
          \<longleftrightarrow> (type < 416 \<and> list_all (\<lambda>c. c < 416) (take 15 name))"
    using t by (auto simp: ljust_def list_all_iff)
  with encode_field [OF f l] True show ?thesis by simp
qed

lemma encode_wildcard_any_type: "encode_name [42] type None = encode_name [42] 0 None"
  by (simp add: encode_name_def name_field_def)

lemma encode_ascii_name:
  assumes "list_all (\<lambda>c. c < 128) name" and "0 \<le> type" and "type \<le> 255"
  shows "\<exists>out. encode_name name type None = Inr out \<and> list_all (\<lambda>b. b < 128) out"
proof (cases "name = [42]")
  case True
  with encode_wildcard encode_wildcard_any_type [of type]
  obtain out where "encode_name name type None = Inr out" by simp
  with encode_name_ascii_out show ?thesis by blast
next
  case False
  from assms(1) have "\<forall>c\<in>set (take 15 name). c < 128"
    by (auto simp: list_all_iff dest: in_set_takeD)
  then have "list_all (\<lambda>c. c < 416) (take 15 name)"
    by (force simp: list_all_iff)
  with encode_name_no_scope [OF False, of type] assms(2,3)
  obtain out where "encode_name name type None = Inr out" by auto
  with encode_name_ascii_out show ?thesis by blast
qed

text \<open>
  C4 fails on the code: the scope branch looks up \<open>string.split\<close>, which the \<open>string\<close> module
  of Python 3 does not have.  With any non-empty scope the encoder raises; for the name
  \<open>WORK\<close>, type \<open>0x20\<close> and scope \<open>a.b\<close> the exception is \<open>AttributeError\<close>, and no label is
  encoded.
\<close>

theorem encode_name_scope_raises:
  "(\<exists>e. encode_name name type (Some (c # scope)) = Inl e)
   \<and> encode_name [87, 79, 82, 75] 0x20 (Some [97, 46, 98]) = Inl AttributeError"
proof
  show "\<exists>e. encode_name name type (Some (c # scope)) = Inl e"
    by (auto simp: encode_name_def Let_def encode_scope_def string_split_def split: sum.splits)
  show "encode_name [87, 79, 82, 75] 0x20 (Some [97, 46, 98]) = Inl AttributeError"
    by code_simp
qed

text \<open>
  C8, as the claim states it, has the encoder reject every name that holds a non-ASCII
  character.  The name \<open>U+00E9\<close> is encoded (its two nibbles become \<open>OJ\<close>), and a non-ASCII
  sixteenth character is dropped without a trace.
\<close>

theorem encode_name_accepts_non_ascii:
  "\<not> list_all (\<lambda>c. c < 128) [233 :: nat]
   \<and> encode_name [233] 0x20 None
       = Inr ([0x20, 79, 74] @ concat (replicate 15 [67, 65]) @ [0x00])
   \<and> encode_name (replicate 15 65 @ [233]) 0x20 None = encode_name (replicate 15 65) 0x20 None
   \<and> encode_name (replicate 15 65) 0x20 None
       = Inr ([0x20] @ concat (replicate 15 [69, 66]) @ [67, 65, 0x00])"
  by code_simp

lemma encode_name_lookup_raises:
  assumes "name \<noteq> [42]" and "0 \<le> type" and "type < 0x110000"
    and "\<not> (type < 416 \<and> list_all (\<lambda>c. c < 416) (take 15 name))"
  shows "encode_name name type None = Inl IndexError"
proof -
  let ?field = "(if length name > 15 then take 15 name else ljust name 15) @ [nat type]"
  from assms(1-3) have f: "name_field name type = Inr ?field"
    by (simp add: name_field_def py_chr_def)
  have l: "length ?field = 16" by (simp add: ljust_def)
  from assms(2) have t: "nat type < 416 \<longleftrightarrow> type < 416" by auto
  have "list_all (\<lambda>c. c < 416) ?field
          \<longleftrightarrow> (type < 416 \<and> list_all (\<lambda>c. c < 416) (take 15 name))"
    using t by (auto simp: ljust_def list_all_iff)
  with assms(4) have "\<not> list_all (\<lambda>c. c < 416) ?field" by simp
  from re_sub_dot_raises [OF this] f l show ?thesis
    by (simp add: encode_name_def py_chr_def)
qed

lemma name_field_take:
  "name_field name type = name_field (take 15 name) type"
proof (cases "length name > 15")
  case True
  have short: "take 15 name \<noteq> [42]"
  proof
    assume "take 15 name = [42]"
    then have "length (take 15 name) = length [42 :: nat]" by (rule arg_cong)
    with True show False by simp
  qed
  from True have "name \<noteq> [42]" by auto
  with short True show ?thesis
    by (cases "py_chr type") (simp_all add: name_field_def ljust_def)
next
  case False
  then show ?thesis by simp
qed

lemma encode_name_take:
  "encode_name name type scope = encode_name (take 15 name) type scope"
  unfolding encode_name_def name_field_take [of name type] ..

text \<open>
  C8 (amended): whenever the encoder returns, its output is pure 7-bit ASCII, and without a
  scope it returns for every ASCII name and every type in \<open>0..255\<close>.  Non-ASCII input is not
  rejected as such.  Without a scope, and for a name other than \<open>*\<close>, the encoder returns
  exactly when the type and each of the first 15 characters of the name are code points
  below 416; when the type is in \<open>0..0x10FFFF\<close> and the type or one of the first 15
  characters is a code point of 416 or more, it raises \<open>IndexError\<close> (the lookup in the table
  of letters).  Characters after the fifteenth are dropped unexamined: the encoder gives on
  a name what it gives on its first 15 characters.
\<close>

theorem encode_name_output_ascii:
  "(encode_name name type scope = Inr out \<longrightarrow> list_all (\<lambda>b. b < 128) out)
   \<and> (list_all (\<lambda>c. c < 128) name \<and> 0 \<le> type \<and> type \<le> 255 \<longrightarrow>
        (\<exists>out. encode_name name type None = Inr out \<and> list_all (\<lambda>b. b < 128) out))
   \<and> (name \<noteq> [42] \<longrightarrow>
        ((\<exists>out. encode_name name type None = Inr out)
           \<longleftrightarrow> (0 \<le> type \<and> type < 416 \<and> list_all (\<lambda>c. c < 416) (take 15 name))))
   \<and> (name \<noteq> [42] \<and> 0 \<le> type \<and> type < 0x110000
        \<and> \<not> (type < 416 \<and> list_all (\<lambda>c. c < 416) (take 15 name)) \<longrightarrow>
        encode_name name type None = Inl IndexError)
   \<and> encode_name name type scope = encode_name (take 15 name) type scope"
  using encode_name_ascii_out [of name type scope out] encode_ascii_name [of name type]
    encode_name_no_scope [of name type] encode_name_lookup_raises [of name type]
    encode_name_take [of name type scope]
  by blast

theorem encode_name_output_ascii_witness:
  "list_all (\<lambda>c. c < 128) [65, 66 :: nat] \<and> (0::int) \<le> 0x20 \<and> (0x20::int) \<le> 255
   \<and> [65, 66] \<noteq> [42::nat]
   \<and> encode_name [65, 66] 0x20 None
       = Inr ([0x20, 69, 66, 69, 67] @ concat (replicate 14 [67, 65]) @ [0x00])
   \<and> list_all (\<lambda>b. b < 128) ([0x20, 69, 66, 69, 67] @ concat (replicate 14 [67, 65]) @ [0x00 :: byte])
   \<and> (\<exists>out. encode_name [65, 66] 0x20 None = Inr out \<and> list_all (\<lambda>b. b < 128) out)
   \<and> [500] \<noteq> [42::nat] \<and> (0x20::int) < 0x110000
   \<and> \<not> ((0x20::int) < 416 \<and> list_all (\<lambda>c. c < 416) (take 15 [500::nat]))
   \<and> encode_name [500] 0x20 None = Inl IndexError"
proof -
  have a: "list_all (\<lambda>c. c < 128) [65, 66 :: nat]" by simp
  have v: "encode_name [65, 66] 0x20 None
       = Inr ([0x20, 69, 66, 69, 67] @ concat (replicate 14 [67, 65]) @ [0x00])"
    by code_simp
  note t = encode_name_output_ascii
    [of "[65, 66]" "0x20" None "[0x20, 69, 66, 69, 67] @ concat (replicate 14 [67, 65]) @ [0x00]"]
  from t v have o: "list_all (\<lambda>b. b < 128)
      ([0x20, 69, 66, 69, 67] @ concat (replicate 14 [67, 65]) @ [0x00 :: byte])"
    by blast
  from t a have e: "\<exists>out. encode_name [65, 66] 0x20 None = Inr out \<and> list_all (\<lambda>b. b < 128) out"
    by simp
  have n: "\<not> ((0x20::int) < 416 \<and> list_all (\<lambda>c. c < 416) (take 15 [500::nat]))" by simp
  from encode_name_output_ascii [of "[500]" "0x20"] n
  have i: "encode_name [500] 0x20 None = Inl IndexError" by simp
  from a v o e n i show ?thesis by simp
qed

end
